theory Spec2Isabelle
  imports Complex_Main "HOL-Library.Word"
begin

section \<open>The segmentation service of \<^verbatim>\<open>backend/app.py\<close>\<close>

text \<open>
  The service keeps two pieces of global state, the rotation index of the password list
  and the dictionary of sessions, and has five handlers. The handlers are modelled as
  functions from a world to an outcome and a new world. The image decoder, the
  segmentation model and OpenCV are libraries outside the repository: they enter the
  model as records of functions, so that every theorem stated for an arbitrary record
  holds whatever these libraries compute.
\<close>

subsection \<open>Arrays, contours and polygons\<close>

text \<open>
  A mask is a two-dimensional boolean array, given by its rows. A contour is what
  \<^verbatim>\<open>cv2.findContours\<close> returns: a sequence of points with 32-bit integer coordinates.
  A polygon is the list \<^verbatim>\<open>[[x, y], ...]\<close> of floats that the service returns; a Python
  float is modelled as a real number (every coordinate that occurs is an integer).
\<close>

type_synonym mask = "bool list list"
type_synonym image_u8 = "8 word list list"
type_synonym contour = "(int \<times> int) list"
type_synonym polygon = "(real \<times> real) list"

text \<open>
  A handler either returns its response, raises \<^verbatim>\<open>HTTPException\<close> with a status code and
  a detail, or lets another exception escape (which the framework answers with status
  500); \<open>Uncaught\<close> carries the name of that exception.
\<close>

datatype failure = HTTPException nat string | Uncaught string

text \<open>
  The four OpenCV calls of \<^verbatim>\<open>_mask_to_polygons\<close>, with the constant arguments of the
  source fixed: \<open>morphologyEx\<close> is the call with \<^verbatim>\<open>MORPH_OPEN\<close> and the 3 by 3 kernel of
  ones, \<open>findContours\<close> the call with \<^verbatim>\<open>RETR_EXTERNAL\<close> and \<^verbatim>\<open>CHAIN_APPROX_SIMPLE\<close>,
  \<open>approxPolyDP\<close> the call with \<^verbatim>\<open>closed=True\<close>. \<open>contourArea\<close> takes the points of an
  array of either depth. The record gives what the calls return. The one call that
  raises on an array the vectorizer can hand it is \<^verbatim>\<open>cv2.morphologyEx\<close>, which asserts
  that its source is not empty: for a mask without pixels it raises \<^verbatim>\<open>cv2.error\<close>,
  and \<open>mask_to_polygons\<close> has that outcome.
\<close>

record cv2 =
  morphologyEx :: "image_u8 \<Rightarrow> image_u8"
  findContours :: "image_u8 \<Rightarrow> contour list"
  contourArea :: "polygon \<Rightarrow> real"
  approxPolyDP :: "contour \<Rightarrow> real \<Rightarrow> contour"

definition astype_float :: "contour \<Rightarrow> polygon" where
  "astype_float cnt = map (\<lambda>(x, y). (real_of_int x, real_of_int y)) cnt"

definition mask_u8 :: "mask \<Rightarrow> image_u8" where
  "mask_u8 m = map (map (\<lambda>b. (if b then 1 else 0) * 255)) m"

text \<open>The loop over the contours (lines 83 to 91), appending to \<open>polys\<close>.\<close>

fun collect_polys :: "cv2 \<Rightarrow> real \<Rightarrow> int \<Rightarrow> contour list \<Rightarrow> polygon list \<Rightarrow> polygon list" where
  "collect_polys cv simplify_eps min_area_px [] polys = polys"
| "collect_polys cv simplify_eps min_area_px (cnt # cnts) polys =
     (if contourArea cv (astype_float cnt) < real_of_int min_area_px
      then collect_polys cv simplify_eps min_area_px cnts polys
      else
        let cnt' = (if simplify_eps > 0 then approxPolyDP cv cnt simplify_eps else cnt);
            pts = astype_float cnt'
        in if length pts \<ge> 3
           then collect_polys cv simplify_eps min_area_px cnts (polys @ [pts])
           else collect_polys cv simplify_eps min_area_px cnts polys)"

text \<open>
  \<^verbatim>\<open>list.sort(key=..., reverse=True)\<close> is a stable sort into descending order of the
  key: the list is reversed, sorted stably into ascending order and reversed again.
\<close>

definition sort_reverse :: "('a \<Rightarrow> real) \<Rightarrow> 'a list \<Rightarrow> 'a list" where
  "sort_reverse key xs = rev (sort_key key (rev xs))"

definition mask_to_polygons :: "cv2 \<Rightarrow> mask \<Rightarrow> real \<Rightarrow> int \<Rightarrow> failure + polygon list" where
  "mask_to_polygons cv m simplify_eps min_area_px =
     (if concat (mask_u8 m) = [] then Inl (Uncaught ''cv2.error'')
      else
        let img = morphologyEx cv (mask_u8 m);
            contours = findContours cv img;
            polys = collect_polys cv simplify_eps min_area_px contours []
        in Inr (sort_reverse (contourArea cv) polys))"

text \<open>The defaults of the two keyword parameters, which \<^verbatim>\<open>segment\<close> uses.\<close>

definition default_simplify_eps :: real where
  "default_simplify_eps = 3 / 2"

definition default_min_area_px :: int where
  "default_min_area_px = 150"

subsection \<open>State, requests and outcomes\<close>

text \<open>
  A decoded image is an array of \<open>height\<close> rows, \<open>width\<close> columns and three channels;
  \<open>shape\<close> is its \<^verbatim>\<open>shape\<close> attribute.
\<close>

record raster =
  height :: nat
  width :: nat
  pixels :: "8 word list"

definition shape :: "raster \<Rightarrow> nat list" where
  "shape img = [height img, width img, 3]"

record 'p session =
  predictor :: 'p
  image_size :: "nat list"
  image_url :: string

text \<open>
  One call of \<^verbatim>\<open>predictor.predict\<close>: the predictor and the four keyword arguments. The
  world keeps the calls made so far in \<open>predict_calls\<close>, which the program does not
  have: it is there to state that a handler did or did not reach the model.
\<close>

record 'p predict_call =
  call_predictor :: 'p
  call_point_coords :: "real list list option"
  call_point_labels :: "int list option"
  call_box :: "real list list option"
  call_multimask_output :: bool

record 'p world =
  current_index :: nat
  sessions :: "string \<rightharpoonup> 'p session"
  uploads :: "string \<rightharpoonup> 8 word list"
  predict_calls :: "'p predict_call list"

text \<open>
  The libraries behind the handlers. \<open>to_np_image\<close> is the decoding of \<^verbatim>\<open>_to_np_image\<close>
  (\<open>Inl\<close> when it raises), \<open>set_image\<close> builds a predictor and computes the embedding,
  \<open>predict\<close> is \<^verbatim>\<open>SamPredictor.predict\<close>, returning the masks and the scores or the text
  of the exception it raises. \<open>int32_overflow\<close> is what \<^verbatim>\<open>np.array(..., dtype=np.int32)\<close>
  does with a list that holds an integer outside the 32-bit range, which depends on the
  version of NumPy (an \<^verbatim>\<open>OverflowError\<close> or wrapped values).
\<close>

record 'p env =
  opencv :: cv2
  to_np_image :: "8 word list \<Rightarrow> string + raster"
  set_image :: "raster \<Rightarrow> string + 'p"
  predict :: "'p \<Rightarrow> real list list option \<Rightarrow> int list option \<Rightarrow> real list list option
                \<Rightarrow> bool \<Rightarrow> string + (mask list \<times> real list)"
  int32_overflow :: "int list \<Rightarrow> string + int list"

definition PASSWORDS :: "string list" where
  "PASSWORDS = [''pass1'', ''pass2'', ''pass3'', ''pass4'']"

definition initial_world :: "'p world" where
  "initial_world =
     \<lparr>current_index = 0, sessions = Map.empty, uploads = Map.empty, predict_calls = []\<rparr>"

subsection \<open>\<^verbatim>\<open>POST /auth\<close>\<close>

text \<open>
  The body is a dictionary of strings; \<^verbatim>\<open>data.get("password")\<close> is \<open>None\<close> when the key is
  missing, which equals no password. Indexing the list out of range raises
  \<^verbatim>\<open>IndexError\<close>.
\<close>

datatype auth_response = Ok_True

definition auth :: "'p world \<Rightarrow> (string \<rightharpoonup> string) \<Rightarrow> (failure + auth_response) \<times> 'p world" where
  "auth w data =
     (let password = data ''password'' in
      if current_index w \<ge> length PASSWORDS then (Inl (Uncaught ''IndexError''), w)
      else if password = Some (PASSWORDS ! current_index w)
      then (Inr Ok_True, w\<lparr>current_index := (current_index w + 1) mod length PASSWORDS\<rparr>)
      else (Inl (HTTPException 401 ''Invalid password''), w))"

subsection \<open>\<^verbatim>\<open>POST /session/start\<close>\<close>

text \<open>
  \<^verbatim>\<open>os.path.splitext\<close>: the extension starts at the last dot of the last path component,
  unless that component has only dots before it.
\<close>

definition rfind :: "char \<Rightarrow> string \<Rightarrow> int" where
  "rfind c s = (case filter (\<lambda>i. s ! i = c) (rev [0..<length s]) of [] \<Rightarrow> -1 | i # _ \<Rightarrow> int i)"

definition splitext :: "string \<Rightarrow> string \<times> string" where
  "splitext p =
     (let sepIndex = rfind CHR ''/'' p; dotIndex = rfind CHR ''.'' p in
      if dotIndex > sepIndex \<and>
         list_ex (\<lambda>i. p ! i \<noteq> CHR ''.'') [nat (sepIndex + 1)..<nat dotIndex]
      then (take (nat dotIndex) p, drop (nat dotIndex) p)
      else (p, []))"

record upload_file =
  filename :: string
  contents :: "8 word list"

record start_response =
  sr_session_id :: string
  sr_image_size :: "nat list"
  sr_image_url :: string

text \<open>
  The two calls of \<^verbatim>\<open>uuid.uuid4()\<close> are inputs of the model: \<open>hex\<close> names the stored
  file and \<open>sid\<close> is the new session identifier.
\<close>

definition start_session ::
  "'p env \<Rightarrow> 'p world \<Rightarrow> upload_file \<Rightarrow> string \<Rightarrow> string
     \<Rightarrow> (failure + start_response) \<times> 'p world" where
  "start_session env w file hex sid =
     (case to_np_image env (contents file) of
        Inl e \<Rightarrow> (Inl (HTTPException 400 (''Invalid image: '' @ e)), w)
      | Inr img_np \<Rightarrow>
          let ext = (if snd (splitext (filename file)) \<noteq> [] then snd (splitext (filename file))
                     else ''.jpg'');
              img_filename = hex @ ext;
              w1 = w\<lparr>uploads := (uploads w)(img_filename \<mapsto> contents file)\<rparr>
          in (case set_image env img_np of
                Inl e \<Rightarrow> (Inl (Uncaught e), w1)
              | Inr p \<Rightarrow>
                  let sess = \<lparr>predictor = p,
                              image_size = [shape img_np ! 1, shape img_np ! 0],
                              image_url = ''/uploads/'' @ img_filename\<rparr>;
                      w2 = w1\<lparr>sessions := (sessions w1)(sid \<mapsto> sess)\<rparr>
                  in (Inr \<lparr>sr_session_id = sid,
                           sr_image_size = image_size sess,
                           sr_image_url = image_url sess\<rparr>, w2)))"

subsection \<open>\<^verbatim>\<open>POST /segment\<close>\<close>

record SegmentRequest =
  session_id :: string
  points :: "real list list option"
  point_labels :: "int list option"
  box :: "real list option"
  multimask :: bool

record mask_result =
  score :: real
  polygons :: "polygon list"

record segment_response =
  image_size_out :: "nat list"
  num_masks :: nat
  masks :: "mask_result list"

text \<open>
  \<^verbatim>\<open>np.array(rows, dtype=np.float32)\<close> raises \<^verbatim>\<open>ValueError\<close> when the rows differ in
  length. The rounding of the values to single precision is left to \<open>predict\<close>.
\<close>

definition np_array_float32 :: "real list list \<Rightarrow> failure + real list list" where
  "np_array_float32 rows =
     (if list_all (\<lambda>r. length r = length (hd rows)) rows then Inr rows
      else Inl (Uncaught ''ValueError''))"

definition in_int32 :: "int \<Rightarrow> bool" where
  "in_int32 i \<longleftrightarrow> - (2 ^ 31) \<le> i \<and> i < 2 ^ 31"

definition np_array_int32 :: "'p env \<Rightarrow> int list \<Rightarrow> failure + int list" where
  "np_array_int32 env ls =
     (if list_all in_int32 ls then Inr ls
      else case int32_overflow env ls of Inl e \<Rightarrow> Inl (Uncaught e) | Inr ls' \<Rightarrow> Inr ls')"

text \<open>Lines 178 to 185: the point arrays. An empty list of points is falsy.\<close>

definition point_arrays ::
  "'p env \<Rightarrow> SegmentRequest \<Rightarrow> failure + (real list list option \<times> int list option)" where
  "point_arrays env req =
     (case points req of
        None \<Rightarrow> Inr (None, None)
      | Some pts \<Rightarrow>
          if pts = [] then Inr (None, None)
          else (case np_array_float32 pts of
                  Inl f \<Rightarrow> Inl f
                | Inr point_coords \<Rightarrow>
                    if (case point_labels req of
                          None \<Rightarrow> False
                        | Some ls \<Rightarrow> ls \<noteq> [] \<and> length ls = length pts)
                    then (case np_array_int32 env (the (point_labels req)) of
                            Inl f \<Rightarrow> Inl f
                          | Inr ls \<Rightarrow> Inr (Some point_coords, Some ls))
                    else Inr (Some point_coords, Some (replicate (length pts) 1))))"

text \<open>Lines 187 to 191: the box array. An empty box is falsy.\<close>

definition box_array :: "SegmentRequest \<Rightarrow> failure + real list list option" where
  "box_array req =
     (case box req of
        None \<Rightarrow> Inr None
      | Some b \<Rightarrow>
          if b = [] then Inr None
          else if length b \<noteq> 4 then Inl (HTTPException 400 ''box must be [x1,y1,x2,y2]'')
          else Inr (Some [b]))"

text \<open>
  Lines 203 to 209: the loop over the masks and their scores, appending to \<open>out\<close>. It is
  outside the \<^verbatim>\<open>try\<close> of the prediction, so an exception of the vectorizer ends the loop
  and escapes the handler.
\<close>

fun append_results ::
  "cv2 \<Rightarrow> (mask \<times> real) list \<Rightarrow> mask_result list \<Rightarrow> failure + mask_result list" where
  "append_results cv [] out = Inr out"
| "append_results cv ((m, s) # rest) out =
     (case mask_to_polygons cv m default_simplify_eps default_min_area_px of
        Inl f \<Rightarrow> Inl f
      | Inr polys \<Rightarrow> append_results cv rest (out @ [\<lparr>score = s, polygons = polys\<rparr>]))"

definition mask_results :: "cv2 \<Rightarrow> mask list \<Rightarrow> real list \<Rightarrow> failure + mask_result list" where
  "mask_results cv ms scores = append_results cv (zip ms scores) []"

definition segment ::
  "'p env \<Rightarrow> 'p world \<Rightarrow> SegmentRequest \<Rightarrow> (failure + segment_response) \<times> 'p world" where
  "segment env w req =
     (case sessions w (session_id req) of
        None \<Rightarrow>
          (Inl (HTTPException 404 ''Invalid session_id. Please start a session first.''), w)
      | Some sess \<Rightarrow>
          (case point_arrays env req of
             Inl f \<Rightarrow> (Inl f, w)
           | Inr (point_coords, labels) \<Rightarrow>
               (case box_array req of
                  Inl f \<Rightarrow> (Inl f, w)
                | Inr box_np \<Rightarrow>
                    let w' = w\<lparr>predict_calls := predict_calls w @
                                 [\<lparr>call_predictor = predictor sess,
                                   call_point_coords = point_coords,
                                   call_point_labels = labels,
                                   call_box = box_np,
                                   call_multimask_output = multimask req\<rparr>]\<rparr>
                    in (case predict env (predictor sess) point_coords labels box_np
                               (multimask req) of
                          Inl e \<Rightarrow>
                            (Inl (HTTPException 500 (''SAM prediction failed: '' @ e)), w')
                        | Inr (ms, scores) \<Rightarrow>
                            (case mask_results (opencv env) ms scores of
                               Inl f \<Rightarrow> (Inl f, w')
                             | Inr out \<Rightarrow>
                                 (Inr \<lparr>image_size_out = image_size sess,
                                       num_masks = length out,
                                       masks = out\<rparr>, w'))))))"

subsection \<open>\<^verbatim>\<open>POST /session/end\<close>\<close>

datatype end_response = Ended

definition end_session :: "'p world \<Rightarrow> string \<Rightarrow> (failure + end_response) \<times> 'p world" where
  "end_session w sid =
     (if sid \<in> dom (sessions w)
      then (Inr Ended, w\<lparr>sessions := (sessions w)(sid := None)\<rparr>)
      else (Inl (HTTPException 404 ''Invalid session_id''), w))"

subsection \<open>Sequences of requests\<close>

text \<open>
  A request to one of the four state-changing endpoints, with the identifiers that
  \<^verbatim>\<open>uuid.uuid4()\<close> draws for a \<^verbatim>\<open>session/start\<close>. \<open>run\<close> serves a list of requests in
  order and returns the world they leave behind.
\<close>

datatype request =
    Auth "(string \<times> string) list"
  | Start upload_file string string
  | Segment SegmentRequest
  | End string

fun serve :: "'p env \<Rightarrow> 'p world \<Rightarrow> request \<Rightarrow> 'p world" where
  "serve env w (Auth data) = snd (auth w (map_of data))"
| "serve env w (Start file hex sid) = snd (start_session env w file hex sid)"
| "serve env w (Segment req) = snd (segment env w req)"
| "serve env w (End sid) = snd (end_session w sid)"

definition run :: "'p env \<Rightarrow> 'p world \<Rightarrow> request list \<Rightarrow> 'p world" where
  "run env w rs = foldl (serve env) w rs"

fun draws :: "string \<Rightarrow> request \<Rightarrow> bool" where
  "draws sid (Start file hex sid') = (sid' = sid)"
| "draws sid _ = False"

section \<open>A reference model of the libraries\<close>

text \<open>
  The theorems below that hold for every record \<open>cv\<close> need nothing of this section. It
  gives one instance of the records, for the statements that are evaluated on concrete
  masks and requests: the four OpenCV calls as OpenCV 4 computes them, and a stand-in
  for the image decoder and the segmentation model.
\<close>

subsection \<open>\<^verbatim>\<open>cv2.contourArea\<close>\<close>

text \<open>
  Half the absolute value of the sum of the cross products of consecutive points, the
  last point preceding the first; zero for an empty array.
\<close>

definition contourArea_ref :: "polygon \<Rightarrow> real" where
  "contourArea_ref ps =
     (if ps = [] then 0
      else \<bar>sum_list (map (\<lambda>((px, py), (x, y)). px * y - py * x)
                         (zip (last ps # butlast ps) ps))\<bar> * (1 / 2))"

subsection \<open>\<^verbatim>\<open>cv2.approxPolyDP\<close> of a closed curve\<close>

text \<open>
  The start: three times over, move to the point found farthest from the current one
  (\<open>rs\<close> is its offset from the current position \<open>pos\<close>, kept from one round to the
  next when no point is farther than distance zero).
\<close>

definition farthest :: "contour \<Rightarrow> nat \<Rightarrow> nat \<Rightarrow> real \<times> nat" where
  "farthest src pos rs =
     foldl (\<lambda>(max_dist, rs) j.
              let (x, y) = src ! ((pos + j) mod length src); (sx, sy) = src ! pos;
                  dx = real_of_int (x - sx); dy = real_of_int (y - sy);
                  dist = dx * dx + dy * dy
              in if dist > max_dist then (dist, j) else (max_dist, rs))
           (0, rs) [1..<length src]"

definition init_iter :: "contour \<Rightarrow> real \<Rightarrow> nat \<times> nat \<times> bool \<Rightarrow> nat \<times> nat \<times> bool" where
  "init_iter src eps2 st =
     (case st of (pos, rs, le_eps) \<Rightarrow>
        let pos' = (pos + rs) mod length src; (max_dist, rs') = farthest src pos' rs
        in (pos', rs', max_dist \<le> eps2))"

text \<open>The positions from \<open>a\<close> up to, and without, \<open>b\<close>, going round the curve.\<close>

definition cyc_range :: "nat \<Rightarrow> nat \<Rightarrow> nat \<Rightarrow> nat list" where
  "cyc_range count a b = takeWhile (\<lambda>k. k \<noteq> b) (map (\<lambda>k. (a + k) mod count) [0..<count])"

text \<open>
  The slice from \<open>start\<close> to \<open>end\<close>: when no point between them is farther from the
  chord than the tolerance, the slice writes its first point; otherwise it is cut at the
  first point of largest distance and the two halves are treated in order. The library
  keeps the slices on a stack; the recursion here is bounded by \<open>fuel\<close>, which starts
  at the number of points of the curve, and a slice that is still to be cut when the
  fuel is used up writes its first point.
\<close>

fun dp_slice :: "nat \<Rightarrow> contour \<Rightarrow> real \<Rightarrow> nat \<Rightarrow> nat \<Rightarrow> contour" where
  "dp_slice fuel src eps2 start end =
     (let count = length src; (sx, sy) = src ! start; (ex, ey) = src ! end;
          pos = (if start + 1 \<ge> count then 0 else start + 1)
      in if pos = end then [(sx, sy)]
         else
           let dx = real_of_int (ex - sx); dy = real_of_int (ey - sy);
               (max_dist, mid) =
                 foldl (\<lambda>(max_dist, mid) k.
                          let (x, y) = src ! k;
                              dist = \<bar>real_of_int (y - sy) * dx - real_of_int (x - sx) * dy\<bar>
                          in if dist > max_dist then (dist, k) else (max_dist, mid))
                       (0, start) (cyc_range count pos end)
           in if max_dist * max_dist \<le> eps2 * (dx * dx + dy * dy) \<or> fuel = 0 then [(sx, sy)]
              else dp_slice (fuel - 1) src eps2 start mid @ dp_slice (fuel - 1) src eps2 mid end)"

text \<open>
  The last stage runs once round the points written so far and drops a point that lies
  almost on the line from its predecessor to its successor, when that line is neither
  horizontal nor vertical. It overwrites the array it reads, so \<open>dst\<close> is updated as
  the library updates it.
\<close>

function cleanup ::
  "nat \<Rightarrow> real \<Rightarrow> nat \<Rightarrow> contour \<Rightarrow> nat \<Rightarrow> nat \<Rightarrow> nat \<Rightarrow> int \<times> int \<Rightarrow> int \<times> int \<Rightarrow> contour" where
  "cleanup count eps2 i dst pos wpos new_count start_pt pt =
     (if i < count \<and> new_count > 2 then
        let end_pt = dst ! pos;
            pos1 = (if pos + 1 \<ge> count then 0 else pos + 1);
            wpos1 = (if wpos + 1 \<ge> count then 0 else wpos + 1);
            dx = real_of_int (fst end_pt - fst start_pt);
            dy = real_of_int (snd end_pt - snd start_pt);
            dist = \<bar>real_of_int (fst pt - fst start_pt) * dy
                    - real_of_int (snd pt - snd start_pt) * dx\<bar>;
            successive_inner_product =
              real_of_int ((fst pt - fst start_pt) * (fst end_pt - fst pt)
                           + (snd pt - snd start_pt) * (snd end_pt - snd pt))
        in if dist * dist \<le> (1 / 2) * eps2 * (dx * dx + dy * dy) \<and> dx \<noteq> 0 \<and> dy \<noteq> 0
              \<and> successive_inner_product \<ge> 0
           then let dst' = dst[wpos := end_pt]
                in cleanup count eps2 (i + 2) dst' (if pos1 + 1 \<ge> count then 0 else pos1 + 1)
                     wpos1 (new_count - 1) end_pt (dst' ! pos1)
           else cleanup count eps2 (i + 1) (dst[wpos := pt]) pos1 wpos1 new_count pt end_pt
      else take new_count dst)"
  by pat_completeness auto
termination
  by (relation "measure (\<lambda>(count, eps2, i, rest). count - i)") auto

definition approxPolyDP_ref :: "contour \<Rightarrow> real \<Rightarrow> contour" where
  "approxPolyDP_ref src epsilon =
     (if src = [] then []
      else
        let count = length src; eps2 = epsilon * epsilon;
            (pos, rs, le_eps) = (init_iter src eps2 ^^ 3) (0, 0, False);
            dst = (if le_eps then [src ! pos]
                   else let start = pos mod count; far = (rs + start) mod count
                        in dp_slice count src eps2 start far @ dp_slice count src eps2 far start);
            n = length dst
        in cleanup n eps2 0 dst (if n \<le> 1 then 0 else 1) 0 n (dst ! (n - 1)) (dst ! 0))"

subsection \<open>\<^verbatim>\<open>cv2.morphologyEx\<close> with \<^verbatim>\<open>MORPH_OPEN\<close> and the 3 by 3 kernel\<close>

text \<open>
  An erosion followed by a dilation. The erosion takes the minimum over the 3 by 3
  window of a pixel, the dilation the maximum; outside the image the erosion reads the
  largest value and the dilation the smallest, so the border never wins. The window is
  taken along the rows first and then across them: \<open>before b xs\<close> holds the left
  neighbour of every position of \<open>xs\<close> and \<open>after b xs\<close> the right one, with \<open>b\<close>
  beyond the ends.
\<close>

definition before :: "'a \<Rightarrow> 'a list \<Rightarrow> 'a list" where
  "before b xs = b # butlast xs"

definition after :: "'a \<Rightarrow> 'a list \<Rightarrow> 'a list" where
  "after b xs = tl xs @ [b]"

definition three :: "('a \<Rightarrow> 'a \<Rightarrow> 'a) \<Rightarrow> 'a \<Rightarrow> 'a list \<Rightarrow> 'a list" where
  "three f b xs = map2 f (before b xs) (map2 f xs (after b xs))"

definition window3 :: "(8 word \<Rightarrow> 8 word \<Rightarrow> 8 word) \<Rightarrow> 8 word \<Rightarrow> image_u8 \<Rightarrow> image_u8" where
  "window3 f b img =
     (if img = [] then []
      else three (map2 f) (replicate (length (hd img)) b) (map (three f b) img))"

definition erode :: "image_u8 \<Rightarrow> image_u8" where
  "erode img = window3 min 255 img"

definition dilate :: "image_u8 \<Rightarrow> image_u8" where
  "dilate img = window3 max 0 img"

definition morphologyEx_ref :: "image_u8 \<Rightarrow> image_u8" where
  "morphologyEx_ref img = dilate (erode img)"

subsection \<open>\<^verbatim>\<open>cv2.findContours\<close> with \<^verbatim>\<open>RETR_EXTERNAL\<close> and \<^verbatim>\<open>CHAIN_APPROX_SIMPLE\<close>\<close>

text \<open>
  Border following. The image is reduced to the labels 0 and 1 and framed with one row
  or column of zeros on each side. A pixel on a traced border is relabelled 2, or -126
  when the pixel to its right is outside the region. Points are \<open>(x, y)\<close>; the
  directions 0 to 7 go from east through north, west and south.
\<close>

type_synonym labels = "int list list"

definition label_at :: "labels \<Rightarrow> int \<times> int \<Rightarrow> int" where
  "label_at img p =
     (case p of (x, y) \<Rightarrow>
        if 0 \<le> y \<and> y < int (length img) \<and> 0 \<le> x \<and> x < int (length (img ! nat y))
        then img ! nat y ! nat x else 0)"

definition set_label :: "labels \<Rightarrow> int \<times> int \<Rightarrow> int \<Rightarrow> labels" where
  "set_label img p v = (case p of (x, y) \<Rightarrow> img[nat y := (img ! nat y)[nat x := v]])"

definition binarize :: "image_u8 \<Rightarrow> labels" where
  "binarize img =
     (let w = (if img = [] then 0 else length (hd img))
      in replicate (w + 2) 0
         # map (\<lambda>row. 0 # map (\<lambda>v. if v \<noteq> 0 then 1 else 0) row @ [0]) img
         @ [replicate (w + 2) 0])"

definition code_delta :: "nat \<Rightarrow> int \<times> int" where
  "code_delta s =
     [(1, 0), (1, -1), (0, -1), (-1, -1), (-1, 0), (-1, 1), (0, 1), (1, 1)] ! (s mod 8)"

definition step_to :: "int \<times> int \<Rightarrow> nat \<Rightarrow> int \<times> int" where
  "step_to p s = (fst p + fst (code_delta s), snd p + snd (code_delta s))"

text \<open>
  One border, from its start \<open>i0\<close> with first neighbour \<open>i1\<close>: at the pixel \<open>i3\<close>,
  reached from direction \<open>s\<close>, the next border pixel \<open>i4\<close> is the first non-zero
  neighbour counterclockwise after \<open>s\<close>. A point is written where the direction
  changes, in the coordinates of the image without its frame. The border is closed
  when the walk is about to repeat its first step. \<open>border_step\<close> is one round of the
  loop: \<open>Inl\<close> when it leaves the loop, \<open>Inr\<close> with the state of the next round.
  \<open>fuel\<close> bounds the number of rounds; \<open>None\<close> says that it ran out.
\<close>

type_synonym walker = "labels \<times> (int \<times> int) \<times> nat \<times> nat \<times> contour"

definition border_step ::
  "int \<times> int \<Rightarrow> int \<times> int \<Rightarrow> walker \<Rightarrow> (labels \<times> contour) + walker" where
  "border_step i0 i1 wk =
     (case wk of (img, i3, s, prev_s, out) \<Rightarrow>
        let s_end = s;
            s' = (case find (\<lambda>k. label_at img (step_to i3 k) \<noteq> 0) [s + 1..<16] of
                    None \<Rightarrow> 15 | Some k \<Rightarrow> k);
            i4 = step_to i3 s';
            s1 = s' mod 8;
            img' = (if s1 \<noteq> 0 \<and> s1 - 1 < s_end then set_label img i3 (-126)
                    else if label_at img i3 = 1 then set_label img i3 2 else img);
            out' = (if s1 \<noteq> prev_s then out @ [(fst i3 - 1, snd i3 - 1)] else out)
        in if i4 = i0 \<and> i3 = i1 then Inl (img', out')
           else Inr (img', i4, (s1 + 4) mod 8, s1, out'))"

fun follow_border ::
  "nat \<Rightarrow> int \<times> int \<Rightarrow> int \<times> int \<Rightarrow> walker \<Rightarrow> (labels \<times> contour) option" where
  "follow_border fuel i0 i1 wk =
     (if fuel = 0 then None
      else case border_step i0 i1 wk of
             Inl res \<Rightarrow> Some res
           | Inr wk' \<Rightarrow> follow_border (fuel - 1) i0 i1 wk')"

definition fetch_contour :: "labels \<Rightarrow> int \<times> int \<Rightarrow> (labels \<times> contour) option" where
  "fetch_contour img i0 =
     (case find (\<lambda>k. label_at img (step_to i0 k) \<noteq> 0) [3, 2, 1, 0, 7, 6, 5] of
        None \<Rightarrow> Some (set_label img i0 (-126), [(fst i0 - 1, snd i0 - 1)])
      | Some s \<Rightarrow>
          follow_border (8 * length img * length (hd img)) i0 (step_to i0 s)
            (img, i0, s, (s + 4) mod 8, []))"

text \<open>
  The raster scan. \<open>sc_prev\<close> is the label to the left, \<open>sc_lnbd\<close> the position of the
  last relabelled pixel met in the row. A border starts at a 1 that follows a 0, unless
  the last relabelled pixel has a positive label: then the scan is inside a region
  already traced. Each new contour goes in front of those found before.
\<close>

record scanner =
  sc_img :: labels
  sc_prev :: int
  sc_lnbd :: "int \<times> int"
  sc_found :: "contour list"

definition marked :: "int \<Rightarrow> bool" where
  "marked v \<longleftrightarrow> v \<noteq> 0 \<and> v \<noteq> 1"

definition scan_pixel :: "nat \<Rightarrow> scanner \<Rightarrow> nat \<Rightarrow> scanner" where
  "scan_pixel y sc x =
     (let img = sc_img sc; prev = sc_prev sc; lnbd = sc_lnbd sc;
          p = label_at img (int x, int y)
      in if p = prev then sc
         else if prev = 0 \<and> p = 1 then
           (if label_at img lnbd > 0 then sc\<lparr>sc_prev := p\<rparr>
            else case fetch_contour img (int x, int y) of
                   None \<Rightarrow> sc\<lparr>sc_prev := p\<rparr>
                 | Some (img', c) \<Rightarrow>
                     sc\<lparr>sc_img := img', sc_prev := label_at img' (int x, int y),
                        sc_lnbd := (int x, snd lnbd), sc_found := c # sc_found sc\<rparr>)
         else if p \<noteq> 0 \<or> prev < 1 then
           sc\<lparr>sc_prev := p, sc_lnbd := (if marked p then (int x, snd lnbd) else lnbd)\<rparr>
         else
           sc\<lparr>sc_prev := p, sc_lnbd := (if marked prev then (int x - 1, snd lnbd) else lnbd)\<rparr>)"

definition scan_row :: "scanner \<Rightarrow> nat \<Rightarrow> scanner" where
  "scan_row sc y =
     foldl (scan_pixel y) (sc\<lparr>sc_prev := 0, sc_lnbd := (0, int y)\<rparr>)
           [1..<length (sc_img sc ! y) - 1]"

definition findContours_ref :: "image_u8 \<Rightarrow> contour list" where
  "findContours_ref img =
     sc_found (foldl scan_row
                 \<lparr>sc_img = binarize img, sc_prev = 0, sc_lnbd = (0, 1), sc_found = []\<rparr>
                 [1..<length (binarize img) - 1])"

definition cv2_ref :: cv2 where
  "cv2_ref = \<lparr>morphologyEx = morphologyEx_ref, findContours = findContours_ref,
              contourArea = contourArea_ref, approxPolyDP = approxPolyDP_ref\<rparr>"

text \<open>
  Two properties of the library that the vectorizer relies on for a mask without
  foreground, stated for one image: the opening has the shape of its input and no pixel
  brighter than the input has there, and every contour is a non-empty sequence of
  positions of non-zero pixels of the image it was found in.
\<close>

definition opening_shrinks :: "cv2 \<Rightarrow> image_u8 \<Rightarrow> bool" where
  "opening_shrinks cv img \<longleftrightarrow> list_all2 (list_all2 (\<le>)) (morphologyEx cv img) img"

definition on_foreground :: "image_u8 \<Rightarrow> int \<times> int \<Rightarrow> bool" where
  "on_foreground img p \<longleftrightarrow>
     (case p of (x, y) \<Rightarrow>
        0 \<le> y \<and> nat y < length img \<and> 0 \<le> x \<and> nat x < length (img ! nat y)
        \<and> img ! nat y ! nat x \<noteq> 0)"

definition contours_on_foreground :: "cv2 \<Rightarrow> image_u8 \<Rightarrow> bool" where
  "contours_on_foreground cv img \<longleftrightarrow>
     list_all (\<lambda>c. c \<noteq> [] \<and> list_all (on_foreground img) c) (findContours cv img)"

subsection \<open>A stand-in for the decoder and the model\<close>

text \<open>
  The decoder reads any non-empty upload as an image of one row; a predictor is the
  height and width of its image, and every prediction returns one mask of that size
  without foreground, with score 0.
\<close>

definition stub_env :: "(nat \<times> nat) env" where
  "stub_env =
     \<lparr>opencv = cv2_ref,
      to_np_image = (\<lambda>bs. if bs = [] then Inl ''cannot identify image file''
                           else Inr \<lparr>height = 1, width = length bs, pixels = bs\<rparr>),
      set_image = (\<lambda>img. Inr (height img, width img)),
      predict = (\<lambda>p coords labels box_np multimask_output.
                   Inr ([replicate (fst p) (replicate (snd p) False)], [0])),
      int32_overflow = (\<lambda>ls. Inl ''OverflowError'')\<rparr>"

subsection \<open>Concrete inputs\<close>

text \<open>
  A mask of 9 rows and 32 columns: a block of 30 by 6 pixels with a strip of 11 pixels,
  one pixel high, on top of it. None of its pixels touches the border of the mask.
\<close>

definition bump_mask :: mask where
  "bump_mask =
     map (\<lambda>y. map (\<lambda>x. (2 \<le> y \<and> y \<le> 7 \<and> 1 \<le> x \<and> x \<le> 30) \<or> (y = 1 \<and> 11 \<le> x \<and> x \<le> 21))
                   [0..<32::nat])
         [0..<9::nat]"

definition bump_contour :: contour where
  "bump_contour = [(11, 1), (10, 2), (1, 2), (1, 7), (30, 7), (30, 2), (22, 2), (21, 1)]"

definition bump_polygon :: polygon where
  "bump_polygon = [(1, 2), (1, 7), (30, 7), (30, 2)]"

text \<open>A mask with two blocks, of 5 by 5 and of 4 by 4 pixels, and a mask without foreground.\<close>

definition of_rows :: "string list \<Rightarrow> mask" where
  "of_rows rs = map (map (\<lambda>c. c = CHR ''#'')) rs"

definition two_blocks :: mask where
  "two_blocks = of_rows
     [''.............'',
      ''.#####..####.'',
      ''.#####..####.'',
      ''.#####..####.'',
      ''.#####..####.'',
      ''.#####.......'',
      ''.............'']"

definition blank_mask :: mask where
  "blank_mask = replicate 3 (replicate 4 False)"

text \<open>A mask of three rows and no column: an array without pixels.\<close>

definition no_pixels :: mask where
  "no_pixels = [[], [], []]"

text \<open>An upload, the world after it has started a session, and requests for that session.\<close>

definition photo :: upload_file where
  "photo = \<lparr>filename = ''cat.png'', contents = [7, 7, 7]\<rparr>"

definition one_session :: "(nat \<times> nat) world" where
  "one_session = snd (start_session stub_env initial_world photo ''f0'' ''s0'')"

definition bare_request :: SegmentRequest where
  "bare_request = \<lparr>session_id = ''s0'', points = None, point_labels = None, box = None,
                    multimask = False\<rparr>"

definition empty_box_request :: SegmentRequest where
  "empty_box_request = bare_request\<lparr>box := Some []\<rparr>"

definition short_box_request :: SegmentRequest where
  "short_box_request = bare_request\<lparr>box := Some [1, 2, 3]\<rparr>"


definition s0_call :: "(nat \<times> nat) predict_call" where
  "s0_call = \<lparr>call_predictor = (1, 3), call_point_coords = None, call_point_labels = None,
               call_box = None, call_multimask_output = False\<rparr>"

definition blank_response :: segment_response where
  "blank_response = \<lparr>image_size_out = [3, 1], num_masks = 1,
                      masks = [\<lparr>score = 0, polygons = []\<rparr>]\<rparr>"

section \<open>Properties of the vectorizer\<close>

lemma collect_polys_sound:
  "p \<in> set (collect_polys cv eps a cnts acc) \<Longrightarrow>
   p \<in> set acc \<or>
   (\<exists>cnt \<in> set cnts. real_of_int a \<le> contourArea cv (astype_float cnt) \<and>
      p = astype_float (if eps > 0 then approxPolyDP cv cnt eps else cnt) \<and> 3 \<le> length p)"
proof (induction cnts arbitrary: acc)
  case Nil
  then show ?case by simp
next
  case (Cons cnt cnts)
  show ?case
  proof (cases "contourArea cv (astype_float cnt) < real_of_int a")
    case True
    with Cons.prems have "p \<in> set (collect_polys cv eps a cnts acc)" by simp
    from Cons.IH [OF this] show ?thesis by auto
  next
    case False
    define q where "q = astype_float (if eps > 0 then approxPolyDP cv cnt eps else cnt)"
    show ?thesis
    proof (cases "3 \<le> length q")
      case True
      with False Cons.prems have "p \<in> set (collect_polys cv eps a cnts (acc @ [q]))"
        by (simp add: q_def Let_def)
      from Cons.IH [OF this] False True show ?thesis
        by (auto simp: q_def)
    next
      case short: False
      with False Cons.prems have "p \<in> set (collect_polys cv eps a cnts acc)"
        by (simp add: q_def Let_def)
      from Cons.IH [OF this] show ?thesis by auto
    qed
  qed
qed

lemma set_sort_reverse: "set (sort_reverse key xs) = set xs"
  by (simp add: sort_reverse_def)

lemma sort_reverse_descending:
  "sorted_wrt (\<lambda>x y. key x \<ge> key y) (sort_reverse key xs)"
proof -
  have "sorted (map key (sort_key key (rev xs)))" by simp
  then have "sorted_wrt (\<lambda>x y. key x \<le> key y) (sort_key key (rev xs))"
    by (simp add: sorted_map)
  then show ?thesis
    by (simp add: sort_reverse_def sorted_wrt_rev)
qed

lemma mask_to_polygons_descending:
  "mask_to_polygons cv m eps a = Inr polys \<Longrightarrow>
   sorted_wrt (\<lambda>p q. contourArea cv p \<ge> contourArea cv q) polys"
  by (auto simp: mask_to_polygons_def Let_def sort_reverse_descending split: if_splits)




lemma append_results_sound:
  "append_results cv xs out = Inr res \<Longrightarrow> mr \<in> set res \<Longrightarrow>
   mr \<in> set out \<or>
   (\<exists>m. mask_to_polygons cv m default_simplify_eps default_min_area_px = Inr (polygons mr))"
proof (induction xs arbitrary: out)
  case Nil
  then show ?case by simp
next
  case (Cons x xs)
  obtain m s where x: "x = (m, s)" by (cases x)
  show ?case
  proof (cases "mask_to_polygons cv m default_simplify_eps default_min_area_px")
    case (Inl g)
    with Cons.prems x show ?thesis by simp
  next
    case (Inr polys)
    with Cons.prems x have
      "append_results cv xs (out @ [\<lparr>score = s, polygons = polys\<rparr>]) = Inr res"
      by simp
    from Cons.IH [OF this Cons.prems(2)] Inr show ?thesis by auto
  qed
qed

lemma descending_adjacent:
  "sorted_wrt (\<lambda>x y. key x \<ge> key y) xs \<Longrightarrow> Suc i < length xs \<Longrightarrow>
   key (xs ! Suc i) \<le> key (xs ! i)"
  by (simp add: sorted_wrt_iff_nth_less)

subsection \<open>Evaluations of the reference model\<close>

lemma bump_opening: "morphologyEx_ref (mask_u8 bump_mask) = mask_u8 bump_mask"
  by code_simp

lemma bump_contours: "findContours_ref (mask_u8 bump_mask) = [bump_contour]"
  by code_simp

lemma bump_contour_area: "contourArea_ref (astype_float bump_contour) = 156"
  by code_simp

lemma bump_approx:
  "astype_float (approxPolyDP_ref bump_contour default_simplify_eps) = bump_polygon"
  by code_simp

lemma bump_polygon_area: "contourArea cv2_ref bump_polygon = 145"
  by code_simp

lemma bump_has_pixels: "concat (mask_u8 bump_mask) \<noteq> []"
  by code_simp

lemma bump_polygons:
  "mask_to_polygons cv2_ref bump_mask default_simplify_eps default_min_area_px =
     Inr [bump_polygon]"
proof -
  have polys: "collect_polys cv2_ref default_simplify_eps default_min_area_px [bump_contour] [] =
          [bump_polygon]"
    by (simp add: cv2_ref_def bump_contour_area bump_approx default_min_area_px_def Let_def)
       (simp add: default_simplify_eps_def bump_polygon_def)
  have contours: "findContours cv2_ref (morphologyEx cv2_ref (mask_u8 bump_mask)) = [bump_contour]"
    by (simp add: cv2_ref_def bump_opening bump_contours)
  show ?thesis
    by (simp only: mask_to_polygons_def bump_has_pixels if_False Let_def contours polys)
       (simp add: sort_reverse_def)
qed

lemma two_blocks_polygons:
  "mask_to_polygons cv2_ref two_blocks (3 / 2) 3 =
     Inr [[(1, 1), (1, 5), (5, 5), (5, 1)], [(8, 1), (8, 4), (11, 4), (11, 1)]]"
  by code_simp

lemma two_blocks_areas:
  "contourArea cv2_ref [(1, 1), (1, 5), (5, 5), (5, 1)] = 16"
  "contourArea cv2_ref [(8, 1), (8, 4), (11, 4), (11, 1)] = 9"
  by code_simp+

lemma blank_contract:
  "opening_shrinks cv2_ref (mask_u8 blank_mask)"
  "contours_on_foreground cv2_ref (morphologyEx cv2_ref (mask_u8 blank_mask))"
  by code_simp+

subsection \<open>Filtering\<close>

text \<open>
  Claim C1, as the code has it. Every polygon that the vectorizer returns with its
  default parameters has at least 3 vertices and is the simplification, with tolerance
  1.5, of an external contour of the opened mask whose enclosed area is at least 150.
  The area test is applied to the contour before it is simplified; the area of the
  simplified polygon is not tested.
\<close>

theorem returned_polygons_filtered:
  assumes "mask_to_polygons cv m default_simplify_eps default_min_area_px = Inr polys"
      and "p \<in> set polys"
  shows "3 \<le> length p \<and>
         (\<exists>cnt \<in> set (findContours cv (morphologyEx cv (mask_u8 m))).
            real_of_int default_min_area_px \<le> contourArea cv (astype_float cnt) \<and>
            p = astype_float (approxPolyDP cv cnt default_simplify_eps))"
proof -
  from assms have "p \<in> set (collect_polys cv default_simplify_eps default_min_area_px
                      (findContours cv (morphologyEx cv (mask_u8 m))) [])"
    by (auto simp: mask_to_polygons_def Let_def set_sort_reverse split: if_splits)
  from collect_polys_sound [OF this] show ?thesis
    by (auto simp: default_simplify_eps_def)
qed

theorem returned_polygons_filtered_witness:
  "mask_to_polygons cv2_ref bump_mask default_simplify_eps default_min_area_px =
     Inr [bump_polygon] \<and>
   3 \<le> length bump_polygon \<and>
   (\<exists>cnt \<in> set (findContours cv2_ref (morphologyEx cv2_ref (mask_u8 bump_mask))).
      real_of_int default_min_area_px \<le> contourArea cv2_ref (astype_float cnt) \<and>
      bump_polygon = astype_float (approxPolyDP cv2_ref cnt default_simplify_eps))"
proof -
  have h: "bump_polygon \<in> set [bump_polygon]"
    by simp
  from bump_polygons returned_polygons_filtered [OF bump_polygons h] show ?thesis by simp
qed

text \<open>
  Claim C1 as it is stated fails on \<open>bump_mask\<close>: its one contour encloses an area of
  156, the simplification removes the strip, and the polygon that is returned encloses
  145, which is below the minimum of 150.
\<close>

theorem returned_polygon_below_min_area:
  "mask_to_polygons cv2_ref bump_mask default_simplify_eps default_min_area_px =
     Inr [bump_polygon] \<and>
   contourArea cv2_ref bump_polygon < real_of_int default_min_area_px"
  using bump_polygons bump_polygon_area by (simp add: default_min_area_px_def)

subsection \<open>Ordering\<close>

text \<open>
  Claim C2. The polygons that the vectorizer returns are in descending order of the
  area that \<open>contourArea\<close> gives them: each polygon encloses at least as much as the
  next one.
\<close>

theorem polygons_sorted_by_area:
  assumes "mask_to_polygons cv m simplify_eps min_area_px = Inr polys"
      and "Suc i < length polys"
  shows "contourArea cv (polys ! Suc i) \<le> contourArea cv (polys ! i)"
  using mask_to_polygons_descending [OF assms(1)] assms(2) by (rule descending_adjacent)

theorem polygons_sorted_by_area_witness:
  "mask_to_polygons cv2_ref two_blocks (3 / 2) 3 =
     Inr [[(1, 1), (1, 5), (5, 5), (5, 1)], [(8, 1), (8, 4), (11, 4), (11, 1)]] \<and>
   contourArea cv2_ref [(8, 1), (8, 4), (11, 4), (11, 1)]
     \<le> contourArea cv2_ref [(1, 1), (1, 5), (5, 5), (5, 1)]"
proof -
  have h: "Suc 0 < length [[(1, 1), (1, 5), (5, 5), (5, 1)],
                           [(8, 1), (8, 4), (11, 4), (11, 1 :: real)]]"
    by simp
  from two_blocks_polygons polygons_sorted_by_area [OF two_blocks_polygons h]
  show ?thesis by simp
qed

text \<open>The same order holds in every mask result of a successful \<^verbatim>\<open>segment\<close> call.\<close>

lemma segment_polygons_sorted:
  assumes "segment env w req = (Inr r, w')" and "mr \<in> set (masks r)"
      and "Suc i < length (polygons mr)"
  shows "contourArea (opencv env) (polygons mr ! Suc i)
           \<le> contourArea (opencv env) (polygons mr ! i)"
proof -
  from assms(1) obtain ms scores where
    "append_results (opencv env) (zip ms scores) [] = Inr (masks r)"
    by (auto simp: segment_def Let_def mask_results_def
             split: sum.splits option.splits prod.splits)
  from append_results_sound [OF this assms(2)] obtain m where
    "mask_to_polygons (opencv env) m default_simplify_eps default_min_area_px =
       Inr (polygons mr)"
    by auto
  from mask_to_polygons_descending [OF this] assms(3)
  show ?thesis by (rule descending_adjacent)
qed

subsection \<open>A mask without foreground\<close>

lemma mask_u8_blank:
  assumes "list_all (list_all Not) m" and "y < length m" and "x < length (m ! y)"
  shows "mask_u8 m ! y ! x = 0"
proof -
  from assms have "\<not> m ! y ! x"
    by (simp add: list_all_length)
  with assms show ?thesis by (simp add: mask_u8_def)
qed

lemma opened_blank:
  assumes "list_all (list_all Not) m" and "opening_shrinks cv (mask_u8 m)"
      and "y < length (morphologyEx cv (mask_u8 m))"
      and "x < length (morphologyEx cv (mask_u8 m) ! y)"
  shows "morphologyEx cv (mask_u8 m) ! y ! x = 0"
proof -
  let ?o = "morphologyEx cv (mask_u8 m)"
  from assms(2) have rows: "list_all2 (list_all2 (\<le>)) ?o (mask_u8 m)"
    by (simp add: opening_shrinks_def)
  then have len: "length ?o = length (mask_u8 m)"
    by (rule list_all2_lengthD)
  from rows assms(3) have row: "list_all2 (\<le>) (?o ! y) (mask_u8 m ! y)"
    by (rule list_all2_nthD)
  then have len_row: "length (?o ! y) = length (mask_u8 m ! y)"
    by (rule list_all2_lengthD)
  from row assms(4) have le: "?o ! y ! x \<le> mask_u8 m ! y ! x"
    by (rule list_all2_nthD)
  from len assms(3) have y: "y < length m" by (simp add: mask_u8_def)
  with len_row assms(4) have x: "x < length (m ! y)" by (simp add: mask_u8_def)
  from le mask_u8_blank [OF assms(1) y x] show ?thesis by simp
qed

text \<open>
  Claim C8, as the code has it. For a mask with at least one pixel and no foreground
  the vectorizer returns the empty list and raises nothing, and the loop of
  \<^verbatim>\<open>segment\<close> turns such a mask into a result with no polygon. What is needed of OpenCV
  is that opening does not brighten the image and that contours run over non-zero
  pixels.
\<close>

theorem blank_mask_no_polygons:
  assumes "list_all (list_all Not) m"
      and "concat m \<noteq> []"
      and "opening_shrinks cv (mask_u8 m)"
      and "contours_on_foreground cv (morphologyEx cv (mask_u8 m))"
  shows "mask_to_polygons cv m simplify_eps min_area_px = Inr [] \<and>
         mask_results cv [m] [s] = Inr [\<lparr>score = s, polygons = []\<rparr>]"
proof -
  let ?o = "morphologyEx cv (mask_u8 m)"
  have "findContours cv ?o = []"
  proof (rule ccontr)
    assume "findContours cv ?o \<noteq> []"
    then obtain c where c: "c \<in> set (findContours cv ?o)"
      by (cases "findContours cv ?o") auto
    with assms(4) have "c \<noteq> []" and pts: "list_all (on_foreground ?o) c"
      by (auto simp: contours_on_foreground_def list_all_iff)
    then obtain x y where "(x, y) \<in> set c"
      by (cases c) auto
    with pts have "on_foreground ?o (x, y)"
      by (auto simp: list_all_iff)
    then have "nat y < length ?o" and "nat x < length (?o ! nat y)"
      and "?o ! nat y ! nat x \<noteq> 0"
      by (simp_all add: on_foreground_def)
    with opened_blank [OF assms(1) assms(3)] show False by blast
  qed
  moreover from assms(2) have "concat (mask_u8 m) \<noteq> []"
    by (auto simp: mask_u8_def)
  ultimately have "mask_to_polygons cv m e a = Inr []" for e a
    by (simp add: mask_to_polygons_def sort_reverse_def)
  then show ?thesis
    by (simp add: mask_results_def)
qed

theorem blank_mask_no_polygons_witness:
  "list_all (list_all Not) blank_mask \<and> concat blank_mask \<noteq> [] \<and>
   mask_to_polygons cv2_ref blank_mask default_simplify_eps default_min_area_px = Inr [] \<and>
   mask_results cv2_ref [blank_mask] [0] = Inr [\<lparr>score = 0, polygons = []\<rparr>]"
proof -
  have h1: "list_all (list_all Not) blank_mask"
    by (simp add: blank_mask_def list_all_iff)
  have h2: "concat blank_mask \<noteq> []"
    by (simp add: blank_mask_def eval_nat_numeral)
  from h1 h2 blank_mask_no_polygons [OF h1 h2 blank_contract] show ?thesis by simp
qed

text \<open>
  Claim C8 as it is stated fails for a mask without pixels, which has no foreground
  either: \<^verbatim>\<open>cv2.morphologyEx\<close> raises, and in \<^verbatim>\<open>segment\<close> the exception escapes the
  handler once the model has returned such a mask.
\<close>

theorem no_pixels_raises:
  "list_all (list_all Not) no_pixels \<and>
   mask_to_polygons cv2_ref no_pixels default_simplify_eps default_min_area_px =
     Inl (Uncaught ''cv2.error'') \<and>
   mask_results cv2_ref [no_pixels] [0] = Inl (Uncaught ''cv2.error'')"
  by (simp add: no_pixels_def mask_to_polygons_def mask_u8_def mask_results_def)

section \<open>Properties of the handlers\<close>

subsection \<open>Evaluations with the stand-in\<close>

lemma splitext_photo: "splitext ''cat.png'' = (''cat'', ''.png'')"
  by code_simp

lemma one_session_eq:
  "start_session stub_env initial_world photo ''f0'' ''s0'' =
     (Inr \<lparr>sr_session_id = ''s0'', sr_image_size = [3, 1], sr_image_url = ''/uploads/f0.png''\<rparr>,
      one_session)"
  by (simp add: one_session_def start_session_def stub_env_def photo_def splitext_photo
        Let_def shape_def eval_nat_numeral)

lemma sessions_one_session:
  "sessions one_session =
     [''s0'' \<mapsto> \<lparr>predictor = (1, 3), image_size = [3, 1], image_url = ''/uploads/f0.png''\<rparr>]"
  by (simp add: one_session_def start_session_def stub_env_def photo_def splitext_photo
        Let_def shape_def initial_world_def eval_nat_numeral)

lemma predict_calls_one_session: "predict_calls one_session = []"
  by (simp add: one_session_def start_session_def stub_env_def photo_def splitext_photo
        Let_def shape_def initial_world_def)

lemma blank_row_polygons:
  "mask_to_polygons cv2_ref [[False, False, False]] default_simplify_eps default_min_area_px =
     Inr []"
  by code_simp

lemma blank_row_results:
  "mask_results cv2_ref [[[False, False, False]]] [0] = Inr [\<lparr>score = 0, polygons = []\<rparr>]"
  by (simp add: mask_results_def blank_row_polygons)

lemma stub_predict:
  "predict stub_env (Suc 0, 3) c l b m = Inr ([[[False, False, False]]], [0])"
  by (simp add: stub_env_def eval_nat_numeral)

lemma opencv_stub: "opencv stub_env = cv2_ref"
  by (simp add: stub_env_def)

lemma segment_bare:
  "segment stub_env one_session bare_request =
     (Inr blank_response, one_session\<lparr>predict_calls := [s0_call]\<rparr>)"
  by (simp add: segment_def sessions_one_session bare_request_def point_arrays_def box_array_def
        stub_predict blank_row_results predict_calls_one_session blank_response_def s0_call_def
        opencv_stub Let_def)

lemma segment_empty_box:
  "segment stub_env one_session empty_box_request =
     (Inr blank_response, one_session\<lparr>predict_calls := [s0_call]\<rparr>)"
  by (simp add: segment_def sessions_one_session bare_request_def empty_box_request_def
        point_arrays_def box_array_def
        stub_predict blank_row_results predict_calls_one_session blank_response_def s0_call_def
        opencv_stub Let_def)

text \<open>
  An exception of the vectorizer is the outcome of the \<^verbatim>\<open>segment\<close> call in which it is
  raised.
\<close>

lemma segment_vectorizer_error:
  assumes "sessions w (session_id req) = Some sess"
      and "point_arrays env req = Inr (coords, labels)"
      and "box_array req = Inr box_np"
      and "predict env (predictor sess) coords labels box_np (multimask req) = Inr (ms, scores)"
      and "mask_results (opencv env) ms scores = Inl f"
  shows "fst (segment env w req) = Inl f"
  using assms by (simp add: segment_def Let_def)

subsection \<open>What \<^verbatim>\<open>segment\<close> leaves alone\<close>

lemma segment_frame:
  "sessions (snd (segment env w req)) = sessions w \<and>
   current_index (snd (segment env w req)) = current_index w \<and>
   uploads (snd (segment env w req)) = uploads w"
  by (simp add: segment_def Let_def split: sum.splits option.splits prod.splits)

text \<open>
  Claim C9. Whatever its outcome, a \<^verbatim>\<open>segment\<close> call returns the dictionary of sessions
  as it found it: no entry is added, removed or replaced, so every session keeps its
  predictor, its image size and its image URL.
\<close>

theorem segment_leaves_sessions:
  "sessions (snd (segment env w req)) = sessions w"
  by (simp add: segment_def Let_def split: sum.splits option.splits prod.splits)

theorem segment_leaves_sessions_witness:
  "segment stub_env one_session bare_request =
     (Inr blank_response, one_session\<lparr>predict_calls := [s0_call]\<rparr>) \<and>
   sessions (snd (segment stub_env one_session bare_request)) = sessions one_session"
  using segment_leaves_sessions [of stub_env one_session bare_request] segment_bare
  by simp

subsection \<open>The password rotation\<close>

lemma current_index_serve:
  "current_index w < length PASSWORDS \<Longrightarrow> current_index (serve env w r) < length PASSWORDS"
  by (cases r)
     (auto simp: auth_def start_session_def segment_def end_session_def Let_def PASSWORDS_def
           split: sum.splits option.splits prod.splits)

lemma current_index_run:
  "current_index w < length PASSWORDS \<Longrightarrow> current_index (run env w rs) < length PASSWORDS"
  unfolding run_def
  by (induction rs arbitrary: w) (simp_all add: current_index_serve)

text \<open>
  Claim C7. In every world that the service reaches from its initial state, an
  \<^verbatim>\<open>auth\<close> request whose password is the one at the rotation index returns
  \<^verbatim>\<open>{"ok": True}\<close> and moves the index on by one modulo the length of the list; any other
  request, also one without a password, fails with status 401 and changes nothing.
\<close>

theorem auth_rotation:
  assumes "w = run env initial_world rs"
  shows "(data ''password'' = Some (PASSWORDS ! current_index w) \<longrightarrow>
            auth w data =
              (Inr Ok_True, w\<lparr>current_index := (current_index w + 1) mod length PASSWORDS\<rparr>)) \<and>
         (data ''password'' \<noteq> Some (PASSWORDS ! current_index w) \<longrightarrow>
            auth w data = (Inl (HTTPException 401 ''Invalid password''), w))"
proof -
  have "current_index (initial_world :: 'a world) < length PASSWORDS"
    by (simp add: initial_world_def PASSWORDS_def)
  then have "current_index w < length PASSWORDS"
    unfolding assms by (rule current_index_run)
  then show ?thesis
    by (simp add: auth_def Let_def)
qed

lemma after_first_login:
  "current_index (run stub_env initial_world [Auth [(''password'', ''pass1'')]]) = 1"
  by (simp add: run_def auth_def initial_world_def PASSWORDS_def Let_def)

theorem auth_rotation_witness:
  "auth (run stub_env initial_world [Auth [(''password'', ''pass1'')]])
        [''password'' \<mapsto> ''pass2''] =
     (Inr Ok_True,
      run stub_env initial_world [Auth [(''password'', ''pass1'')]]\<lparr>current_index := 2\<rparr>) \<and>
   auth (run stub_env initial_world [Auth [(''password'', ''pass1'')]])
        [''password'' \<mapsto> ''pass1''] =
     (Inl (HTTPException 401 ''Invalid password''),
      run stub_env initial_world [Auth [(''password'', ''pass1'')]])"
  using auth_rotation [OF refl, of "[''password'' \<mapsto> ''pass2'']" stub_env
          "[Auth [(''password'', ''pass1'')]]"]
        auth_rotation [OF refl, of "[''password'' \<mapsto> ''pass1'']" stub_env
          "[Auth [(''password'', ''pass1'')]]"]
  by (simp add: after_first_login PASSWORDS_def)

subsection \<open>The life of a session\<close>

lemma serve_keeps_session:
  assumes "\<not> draws sid r"
      and "sessions w sid = None \<or> sessions w sid = Some sess"
  shows "sessions (serve env w r) sid = None \<or> sessions (serve env w r) sid = Some sess"
proof (cases r)
  case (Auth data)
  with assms show ?thesis by (auto simp: auth_def Let_def)
next
  case (Start f hex sid')
  with assms show ?thesis
    by (auto simp: start_session_def Let_def split: sum.splits)
next
  case (Segment req)
  with assms show ?thesis by (simp add: segment_frame)
next
  case (End sid')
  with assms show ?thesis by (auto simp: end_session_def)
qed

lemma run_keeps_session:
  assumes "\<not> list_ex (draws sid) rs"
      and "sessions w sid = None \<or> sessions w sid = Some sess"
  shows "sessions (run env w rs) sid = None \<or> sessions (run env w rs) sid = Some sess"
  using assms unfolding run_def
proof (induction rs arbitrary: w)
  case Nil
  then show ?case by simp
next
  case (Cons r rs)
  from Cons.prems have "\<not> draws sid r" and rest: "\<not> list_ex (draws sid) rs" by simp_all
  then have "sessions (serve env w r) sid = None \<or> sessions (serve env w r) sid = Some sess"
    using Cons.prems(2) by (intro serve_keeps_session)
  with rest show ?case by (simp add: Cons.IH)
qed

lemma run_keeps_absent:
  assumes "\<not> list_ex (draws sid) rs" and "sessions w sid = None"
  shows "sessions (run env w rs) sid = None"
  using assms unfolding run_def
proof (induction rs arbitrary: w)
  case Nil
  then show ?case by simp
next
  case (Cons r rs)
  from Cons.prems have nd: "\<not> draws sid r" and rest: "\<not> list_ex (draws sid) rs" by simp_all
  have "sessions (serve env w r) sid = None"
  proof (cases r)
    case (Auth data)
    with Cons.prems show ?thesis by (auto simp: auth_def Let_def)
  next
    case (Start f hex sid')
    with Cons.prems nd show ?thesis
      by (auto simp: start_session_def Let_def split: sum.splits)
  next
    case (Segment req)
    with Cons.prems show ?thesis by (simp add: segment_frame)
  next
    case (End sid')
    with Cons.prems show ?thesis by (auto simp: end_session_def)
  qed
  with rest show ?case by (simp add: Cons.IH)
qed

text \<open>
  Claim C5. After a \<^verbatim>\<open>session/end\<close> that succeeded for an identifier, and after any
  further requests among which no \<^verbatim>\<open>session/start\<close> draws that identifier again, a
  \<^verbatim>\<open>segment\<close> call with the identifier fails with status 404 and so does a second
  \<^verbatim>\<open>session/end\<close>.
\<close>

theorem ended_session_not_found:
  assumes "end_session w sid = (Inr Ended, w')"
      and "\<not> list_ex (draws sid) rs"
      and "session_id req = sid"
  shows "fst (segment env (run env w' rs) req) =
           Inl (HTTPException 404 ''Invalid session_id. Please start a session first.'') \<and>
         fst (end_session (run env w' rs) sid) = Inl (HTTPException 404 ''Invalid session_id'')"
proof -
  from assms(1) have "sessions w' sid = None"
    by (auto simp: end_session_def split: if_splits)
  with assms(2) have gone: "sessions (run env w' rs) sid = None"
    by (intro run_keeps_absent)
  then show ?thesis
    using assms(3) by (simp add: segment_def end_session_def domIff)
qed

theorem ended_session_not_found_witness:
  "end_session one_session ''s0'' = (Inr Ended, snd (end_session one_session ''s0'')) \<and>
   \<not> list_ex (draws ''s0'') [Segment bare_request, Start photo ''f1'' ''s1''] \<and>
   fst (segment stub_env
          (run stub_env (snd (end_session one_session ''s0''))
             [Segment bare_request, Start photo ''f1'' ''s1''])
          bare_request) =
     Inl (HTTPException 404 ''Invalid session_id. Please start a session first.'') \<and>
   fst (end_session
          (run stub_env (snd (end_session one_session ''s0''))
             [Segment bare_request, Start photo ''f1'' ''s1''])
          ''s0'') = Inl (HTTPException 404 ''Invalid session_id'')"
proof -
  have h1: "end_session one_session ''s0'' = (Inr Ended, snd (end_session one_session ''s0''))"
    by (simp add: end_session_def sessions_one_session)
  have h2: "\<not> list_ex (draws ''s0'') [Segment bare_request, Start photo ''f1'' ''s1'']"
    by simp
  have h3: "session_id bare_request = ''s0''"
    by (simp add: bare_request_def)
  from h1 h2 ended_session_not_found [OF h1 h2 h3, of stub_env] show ?thesis by simp
qed

text \<open>
  Claim C6. When \<^verbatim>\<open>session/start\<close> succeeds, the upload was decoded to an image and the
  image size in the response is the width and the height of that image. After any
  further requests among which no \<^verbatim>\<open>session/start\<close> draws the same identifier again,
  every \<^verbatim>\<open>segment\<close> call for the session that returns a response reports that same
  size.
\<close>

theorem image_size_round_trip:
  assumes "start_session env w file hex sid = (Inr resp, w')"
      and "\<not> list_ex (draws sid) rs"
  shows "\<exists>img. to_np_image env (contents file) = Inr img \<and>
           sr_session_id resp = sid \<and>
           sr_image_size resp = [width img, height img] \<and>
           (\<forall>req r w''. session_id req = sid \<longrightarrow>
              segment env (run env w' rs) req = (Inr r, w'') \<longrightarrow>
              image_size_out r = [width img, height img])"
proof -
  from assms(1) obtain img p where
      img: "to_np_image env (contents file) = Inr img"
    and p: "set_image env img = Inr p"
    by (auto simp: start_session_def Let_def split: sum.splits)
  define sess where "sess = \<lparr>predictor = p, image_size = [width img, height img],
     image_url = ''/uploads/'' @ hex @ (if snd (splitext (filename file)) \<noteq> []
       then snd (splitext (filename file)) else ''.jpg'')\<rparr>"
  from assms(1) img p have resp: "sr_session_id resp = sid"
      "sr_image_size resp = [width img, height img]"
    and w': "sessions w' sid = Some sess"
    by (auto simp: start_session_def Let_def shape_def sess_def)
  have later:
    "sessions (run env w' rs) sid = None \<or> sessions (run env w' rs) sid = Some sess"
    using run_keeps_session [OF assms(2), of w' sess env] w' by simp
  have "image_size_out r = [width img, height img]"
    if "session_id req = sid" and "segment env (run env w' rs) req = (Inr r, w'')"
    for req r w''
    using later that
    by (auto simp: segment_def Let_def sess_def split: sum.splits option.splits prod.splits)
  with img resp show ?thesis by blast
qed

lemma run_segment_bare:
  "run stub_env one_session [Segment bare_request] = one_session\<lparr>predict_calls := [s0_call]\<rparr>"
  by (simp add: run_def segment_bare)

lemma segment_bare_again:
  "segment stub_env (one_session\<lparr>predict_calls := [s0_call]\<rparr>) bare_request =
     (Inr blank_response, one_session\<lparr>predict_calls := [s0_call, s0_call]\<rparr>)"
  by (simp add: segment_def sessions_one_session bare_request_def point_arrays_def box_array_def
        stub_predict blank_row_results blank_response_def s0_call_def opencv_stub Let_def)

theorem image_size_round_trip_witness:
  "start_session stub_env initial_world photo ''f0'' ''s0'' =
     (Inr \<lparr>sr_session_id = ''s0'', sr_image_size = [3, 1], sr_image_url = ''/uploads/f0.png''\<rparr>,
      one_session) \<and>
   to_np_image stub_env (contents photo) = Inr \<lparr>height = 1, width = 3, pixels = [7, 7, 7]\<rparr> \<and>
   segment stub_env (run stub_env one_session [Segment bare_request]) bare_request =
     (Inr blank_response, one_session\<lparr>predict_calls := [s0_call, s0_call]\<rparr>) \<and>
   image_size_out blank_response = [3, 1]"
proof -
  have h2: "\<not> list_ex (draws ''s0'') [Segment bare_request]"
    by simp
  have dec: "to_np_image stub_env (contents photo) =
               Inr \<lparr>height = 1, width = 3, pixels = [7, 7, 7]\<rparr>"
    by (simp add: stub_env_def photo_def)
  have seg: "segment stub_env (run stub_env one_session [Segment bare_request]) bare_request =
               (Inr blank_response, one_session\<lparr>predict_calls := [s0_call, s0_call]\<rparr>)"
    by (simp add: run_segment_bare segment_bare_again)
  have sid: "session_id bare_request = ''s0''"
    by (simp add: bare_request_def)
  from image_size_round_trip [OF one_session_eq h2] obtain img where
      img: "to_np_image stub_env (contents photo) = Inr img"
    and later: "\<forall>req r w''. session_id req = ''s0'' \<longrightarrow>
              segment stub_env (run stub_env one_session [Segment bare_request]) req
                = (Inr r, w'') \<longrightarrow>
              image_size_out r = [width img, height img]"
    by blast
  from img dec have "width img = 3" and "height img = 1"
    by auto
  with later [rule_format, OF sid seg]
  have "image_size_out blank_response = [3, 1]"
    by simp
  with one_session_eq dec seg show ?thesis by simp
qed

subsection \<open>The box of a \<^verbatim>\<open>segment\<close> request\<close>



text \<open>
  Claim C3, as the code has it. A \<^verbatim>\<open>segment\<close> request for a session that exists, whose
  point arrays are built without an exception and whose box is a non-empty list of a
  length other than 4, fails with status 400; the world is returned as it was, so the
  model has not been called.
\<close>

theorem malformed_box_rejected:
  assumes "sessions w (session_id req) = Some sess"
      and "point_arrays env req = Inr pa"
      and "box req = Some b" and "b \<noteq> []" and "length b \<noteq> 4"
  shows "segment env w req = (Inl (HTTPException 400 ''box must be [x1,y1,x2,y2]''), w)"
  using assms by (simp add: segment_def box_array_def split: prod.splits)

theorem malformed_box_rejected_witness:
  "sessions one_session (session_id short_box_request) =
     Some \<lparr>predictor = (1, 3), image_size = [3, 1], image_url = ''/uploads/f0.png''\<rparr> \<and>
   point_arrays stub_env short_box_request = Inr (None, None) \<and>
   box short_box_request = Some [1, 2, 3] \<and>
   segment stub_env one_session short_box_request =
     (Inl (HTTPException 400 ''box must be [x1,y1,x2,y2]''), one_session)"
proof -
  have h1: "sessions one_session (session_id short_box_request) =
              Some \<lparr>predictor = (1, 3), image_size = [3, 1], image_url = ''/uploads/f0.png''\<rparr>"
    by (simp add: sessions_one_session short_box_request_def bare_request_def)
  have h2: "point_arrays stub_env short_box_request = Inr (None, None)"
    by (simp add: point_arrays_def short_box_request_def bare_request_def)
  have h3: "box short_box_request = Some [1, 2, 3]"
    by (simp add: short_box_request_def)
  have h4: "[1, 2, 3] \<noteq> ([] :: real list)" and h5: "length [1, 2, 3 :: real] \<noteq> 4"
    by simp_all
  from h1 h2 h3 malformed_box_rejected [OF h1 h2 h3 h4 h5] show ?thesis by simp
qed

text \<open>
  Claim C3 as it is stated fails for the empty box: it is supplied and is not 4
  numbers, and yet the request is answered with a response, after a call of the model.
\<close>

theorem empty_box_not_rejected:
  "box empty_box_request = Some [] \<and>
   predict_calls one_session = [] \<and>
   segment stub_env one_session empty_box_request =
     (Inr blank_response, one_session\<lparr>predict_calls := [s0_call]\<rparr>)"
  by (simp add: segment_empty_box predict_calls_one_session)
     (simp add: empty_box_request_def)



subsection \<open>The labels of the points\<close>






end
